theory Spec2Isabelle
  imports Complex_Main
begin

section \<open>Halving-cycle analysis of a daily price series\<close>

text \<open>
  This theory embeds the analysis core of \<^verbatim>\<open>src/app/page.tsx\<close>: the function
  \<^verbatim>\<open>analyzeHalvingCycles\<close> (nearest-sample lookup, the two window filters, the peak
  scan, the drawdown scan and the assembled record) and \<^verbatim>\<open>getFilteredData\<close>.

  Conventions of the embedding.
  \<^item> Timestamps are epoch milliseconds, modelled as \<open>int\<close>.
  \<^item> Prices are finite JavaScript numbers (IEEE doubles), a subset of \<open>real\<close>. The result
    of an arithmetic operation is a \<open>number\<close>: a finite value, an infinity or NaN.
    Every subtraction, division and multiplication of the source rounds its exact result
    to a double; that rounding is the parameter \<open>fl\<close> of the model (\<open>fl x\<close> is the double
    nearest to \<open>x\<close>, or an infinity when \<open>x\<close> is out of range), so no theorem depends on
    exact real arithmetic unless it says so. Division by zero and the arithmetic of the
    infinities are written out as JavaScript has them. Comparisons are exact. Signed
    zeros are not distinguished.
  \<^item> \<^verbatim>\<open>new Date(s).getTime()\<close> is the parameter \<open>getTime\<close> (a date-only ISO string
    denotes its UTC midnight), and \<^verbatim>\<open>Date.now()\<close> is the parameter \<open>now\<close>, one
    reading for the whole pass.
  \<^item> The event table is a parameter \<open>events\<close> of the generic functions; the source's
    constant table is \<open>HALVING_EVENTS\<close>.
  \<^item> Truthiness tests of the source (\<^verbatim>\<open>x || y\<close>, \<^verbatim>\<open>!x\<close>, \<^verbatim>\<open>x ? a : b\<close>) are written
    out: the empty string, the number zero and null are falsy.
\<close>

subsection \<open>Data model\<close>

record HalvingEvent =
  date :: string
  blockHeight :: int
  cycle :: int

record PriceData =
  date :: string
  price :: real
  timestamp :: int

datatype number = Num real | PosInf | NegInf | NaN

record PreHalving =
  startDate :: string
  startPrice :: real
  halvingPrice :: real
  percentageGain :: number
  daysAnalyzed :: nat

record PostHalving =
  peakDate :: string
  peakPrice :: real
  percentageGain :: number
  crashDate :: "string option"
  crashPrice :: "real option"
  percentageFromPeak :: "number option"
  daysToPeak :: int

record CycleAnalysis =
  cycle :: int
  halvingDate :: string
  preHalvingData :: PreHalving
  postHalvingData :: PostHalving

definition HALVING_EVENTS :: "HalvingEvent list" where
  "HALVING_EVENTS =
     [\<lparr>HalvingEvent.date = ''2012-11-28'', blockHeight = 210000, cycle = 1\<rparr>,
      \<lparr>HalvingEvent.date = ''2016-07-09'', blockHeight = 420000, cycle = 2\<rparr>,
      \<lparr>HalvingEvent.date = ''2020-05-11'', blockHeight = 630000, cycle = 3\<rparr>,
      \<lparr>HalvingEvent.date = ''2024-04-20'', blockHeight = 840000, cycle = 4\<rparr>]"

subsection \<open>JavaScript number operations used by the analysis\<close>

definition sub_num :: "(real \<Rightarrow> number) \<Rightarrow> real \<Rightarrow> real \<Rightarrow> number" where
  \<comment> \<open>\<^verbatim>\<open>a - b\<close> on finite operands\<close>
  "sub_num fl a b = fl (a - b)"

fun div_num :: "(real \<Rightarrow> number) \<Rightarrow> number \<Rightarrow> real \<Rightarrow> number" where
  \<comment> \<open>\<^verbatim>\<open>x / b\<close> for a finite divisor \<open>b\<close>\<close>
  "div_num fl (Num a) b =
     (if b \<noteq> 0 then fl (a / b)
      else if 0 < a then PosInf
      else if a < 0 then NegInf
      else NaN)"
| "div_num fl PosInf b = (if 0 \<le> b then PosInf else NegInf)"
| "div_num fl NegInf b = (if 0 \<le> b then NegInf else PosInf)"
| "div_num fl NaN b = NaN"

fun mul_num :: "(real \<Rightarrow> number) \<Rightarrow> number \<Rightarrow> real \<Rightarrow> number" where
  \<comment> \<open>\<^verbatim>\<open>x * c\<close> for a finite constant \<open>c\<close>\<close>
  "mul_num fl (Num a) c = fl (a * c)"
| "mul_num fl PosInf c = (if 0 < c then PosInf else if c < 0 then NegInf else NaN)"
| "mul_num fl NegInf c = (if 0 < c then NegInf else if c < 0 then PosInf else NaN)"
| "mul_num fl NaN c = NaN"


fun gt_num :: "number \<Rightarrow> number \<Rightarrow> bool" where
  \<comment> \<open>\<^verbatim>\<open>x > y\<close>: false whenever an operand is NaN\<close>
  "gt_num (Num a) (Num b) = (b < a)"
| "gt_num PosInf (Num b) = True"
| "gt_num PosInf NegInf = True"
| "gt_num (Num a) NegInf = True"
| "gt_num x y = False"

fun ge_num :: "number \<Rightarrow> number \<Rightarrow> bool" where
  \<comment> \<open>\<^verbatim>\<open>x >= y\<close>: false whenever an operand is NaN\<close>
  "ge_num NaN y = False"
| "ge_num x NaN = False"
| "ge_num x y = (x = y \<or> gt_num x y)"

fun isFinite :: "number \<Rightarrow> bool" where
  "isFinite (Num a) = True"
| "isFinite x = False"

subsection \<open>Window extraction\<close>

definition findHalvingPriceData :: "PriceData list \<Rightarrow> int \<Rightarrow> PriceData option" where
  \<comment> \<open>\<^verbatim>\<open>data.find(d => Math.abs(d.timestamp - halvingTimestamp) < 24*60*60*1000)\<close>\<close>
  "findHalvingPriceData data halvingTimestamp =
     find (\<lambda>d. \<bar>timestamp d - halvingTimestamp\<bar> < 24 * 60 * 60 * 1000) data"

definition preHalvingFilter :: "PriceData list \<Rightarrow> int \<Rightarrow> PriceData list" where
  \<comment> \<open>the local \<^verbatim>\<open>preHalvingData\<close>\<close>
  "preHalvingFilter data halvingTimestamp =
     (let preHalvingStart = halvingTimestamp - (365 * 24 * 60 * 60 * 1000)
      in filter (\<lambda>d. timestamp d \<ge> preHalvingStart \<and> timestamp d \<le> halvingTimestamp) data)"

definition nextHalvingTimestamp ::
  "(string \<Rightarrow> int) \<Rightarrow> int \<Rightarrow> HalvingEvent list \<Rightarrow> nat \<Rightarrow> int" where
  \<comment> \<open>\<^verbatim>\<open>EVENTS[index + 1]?.date ? new Date(EVENTS[index + 1].date).getTime() : Date.now()\<close>\<close>
  "nextHalvingTimestamp getTime now events index =
     (if index + 1 < length events \<and> HalvingEvent.date (events ! (index + 1)) \<noteq> []
      then getTime (HalvingEvent.date (events ! (index + 1)))
      else now)"

definition analysisEnd ::
  "(string \<Rightarrow> int) \<Rightarrow> int \<Rightarrow> HalvingEvent list \<Rightarrow> nat \<Rightarrow> int \<Rightarrow> int" where
  \<comment> \<open>\<^verbatim>\<open>Math.min(postHalvingEnd, nextHalvingTimestamp, Date.now())\<close>\<close>
  "analysisEnd getTime now events index halvingTimestamp =
     (let postHalvingEnd = halvingTimestamp + (550 * 24 * 60 * 60 * 1000)
      in min postHalvingEnd (min (nextHalvingTimestamp getTime now events index) now))"

definition postHalvingFilter ::
  "(string \<Rightarrow> int) \<Rightarrow> int \<Rightarrow> HalvingEvent list \<Rightarrow> nat \<Rightarrow> PriceData list \<Rightarrow> int
     \<Rightarrow> PriceData list" where
  \<comment> \<open>the local \<^verbatim>\<open>postHalvingData\<close>\<close>
  "postHalvingFilter getTime now events index data halvingTimestamp =
     filter (\<lambda>d. timestamp d > halvingTimestamp
                 \<and> timestamp d \<le> analysisEnd getTime now events index halvingTimestamp) data"

subsection \<open>Peak scan\<close>

text \<open>
  The \<^verbatim>\<open>forEach\<close> over the post-event window with the mutable triple
  \<^verbatim>\<open>(peakPrice, peakDate, peakIndex)\<close>; the second argument is the callback's index.
  Local variables of the source whose names are also field names of the result record
  are abbreviated here (\<open>pPrice\<close> for \<^verbatim>\<open>peakPrice\<close>, \<open>cDate\<close> for \<^verbatim>\<open>crashDate\<close>,
  \<open>hPrice\<close>, \<open>sPrice\<close> and so on).
\<close>

fun peakLoop :: "PriceData list \<Rightarrow> nat \<Rightarrow> real \<times> string \<times> nat \<Rightarrow> real \<times> string \<times> nat" where
  "peakLoop [] i st = st"
| "peakLoop (d # ds) i (pPrice, pDate, pIndex) =
     peakLoop ds (i + 1)
       (if price d > pPrice then (price d, PriceData.date d, i)
        else (pPrice, pDate, pIndex))"

definition findPeak :: "real \<Rightarrow> string \<Rightarrow> PriceData list \<Rightarrow> real \<times> string \<times> nat" where
  \<comment> \<open>seeded with \<^verbatim>\<open>peakPrice = halvingPrice\<close>, \<^verbatim>\<open>peakDate = halving.date\<close>, \<^verbatim>\<open>peakIndex = 0\<close>\<close>
  "findPeak hPrice hDate post = peakLoop post 0 (hPrice, hDate, 0)"

subsection \<open>Drawdown scan\<close>

definition drawdown :: "(real \<Rightarrow> number) \<Rightarrow> real \<Rightarrow> PriceData \<Rightarrow> number" where
  \<comment> \<open>\<^verbatim>\<open>((peakPrice - postHalvingData[i].price) / peakPrice) * 100\<close>\<close>
  "drawdown fl pPrice d = mul_num fl (div_num fl (sub_num fl pPrice (price d)) pPrice) 100"

definition falsyDate :: "string option \<Rightarrow> bool" where
  \<comment> \<open>\<^verbatim>\<open>!crashDate\<close>: null or the empty string\<close>
  "falsyDate c = (case c of None \<Rightarrow> True | Some s \<Rightarrow> s = [])"

fun crashStep ::
  "(real \<Rightarrow> number) \<Rightarrow> real \<Rightarrow> PriceData \<Rightarrow> string option \<times> real option \<times> number
     \<Rightarrow> string option \<times> real option \<times> number" where
  "crashStep fl pPrice d (cDate, cPrice, maxDrawdown) =
     (if gt_num (drawdown fl pPrice d) maxDrawdown then
        (if ge_num (drawdown fl pPrice d) (Num 30) \<and> falsyDate cDate
         then (Some (PriceData.date d), Some (price d), drawdown fl pPrice d)
         else (cDate, cPrice, drawdown fl pPrice d))
      else (cDate, cPrice, maxDrawdown))"

function crashLoop ::
  "(real \<Rightarrow> number) \<Rightarrow> PriceData list \<Rightarrow> real \<Rightarrow> nat
     \<Rightarrow> string option \<times> real option \<times> number
     \<Rightarrow> string option \<times> real option \<times> number" where
  "crashLoop fl post pPrice i st =
     (if i < length post
      then crashLoop fl post pPrice (i + 1) (crashStep fl pPrice (post ! i) st)
      else st)"
  by pat_completeness auto
termination
  by (relation "measure (\<lambda>(fl, post, pPrice, i, st). length post - i)") auto

declare crashLoop.simps [simp del]

definition findCrash ::
  "(real \<Rightarrow> number) \<Rightarrow> real \<Rightarrow> nat \<Rightarrow> PriceData list
     \<Rightarrow> string option \<times> real option \<times> number" where
  "findCrash fl pPrice pIndex post = crashLoop fl post pPrice pIndex (None, None, Num 0)"

subsection \<open>One event, and the pass over the event table\<close>

definition buildAnalysis ::
  "(real \<Rightarrow> number) \<Rightarrow> (string \<Rightarrow> int) \<Rightarrow> int \<Rightarrow> HalvingEvent list \<Rightarrow> PriceData list \<Rightarrow> nat \<Rightarrow> HalvingEvent
     \<Rightarrow> PriceData \<Rightarrow> CycleAnalysis" where
  \<comment> \<open>the callback's body after the lookup of \<^verbatim>\<open>halvingPriceData\<close> has succeeded\<close>
  "buildAnalysis fl getTime now events data index halving halvingPriceData =
     (let halvingTimestamp = getTime (HalvingEvent.date halving);
          pre = preHalvingFilter data halvingTimestamp;
          sPrice = (case pre of [] \<Rightarrow> 0
                    | d # _ \<Rightarrow> if price d \<noteq> 0 then price d else 0);
          hPrice = price halvingPriceData;
          preHalvingGain = mul_num fl (div_num fl (sub_num fl hPrice sPrice) sPrice) 100;
          post = postHalvingFilter getTime now events index data halvingTimestamp;
          (pPrice, pDate, pIndex) = findPeak hPrice (HalvingEvent.date halving) post;
          postHalvingGain = mul_num fl (div_num fl (sub_num fl pPrice hPrice) hPrice) 100;
          dToPeak = (getTime pDate - halvingTimestamp) div (24 * 60 * 60 * 1000);
          (cDate, cPrice, maxDrawdown) = findCrash fl pPrice pIndex post
      in \<lparr>CycleAnalysis.cycle = HalvingEvent.cycle halving,
          halvingDate = HalvingEvent.date halving,
          preHalvingData =
            \<lparr>startDate = (case pre of [] \<Rightarrow> HalvingEvent.date halving
                          | d # _ \<Rightarrow> if PriceData.date d \<noteq> [] then PriceData.date d
                                     else HalvingEvent.date halving),
             startPrice = sPrice,
             halvingPrice = hPrice,
             PreHalving.percentageGain = preHalvingGain,
             daysAnalyzed = length pre\<rparr>,
          postHalvingData =
            \<lparr>peakDate = pDate,
             peakPrice = pPrice,
             PostHalving.percentageGain = postHalvingGain,
             crashDate = cDate,
             crashPrice = cPrice,
             percentageFromPeak =
               (case cPrice of
                  None \<Rightarrow> None
                | Some c \<Rightarrow> if c \<noteq> 0
                            then Some (mul_num fl (div_num fl (sub_num fl c pPrice) pPrice) 100)
                            else None),
             daysToPeak = dToPeak\<rparr>\<rparr>)"

definition analyzeCycle ::
  "(real \<Rightarrow> number) \<Rightarrow> (string \<Rightarrow> int) \<Rightarrow> int \<Rightarrow> HalvingEvent list \<Rightarrow> PriceData list \<Rightarrow> nat \<Rightarrow> HalvingEvent
     \<Rightarrow> CycleAnalysis option" where
  \<comment> \<open>the \<^verbatim>\<open>forEach\<close> callback; \<open>None\<close> is its early \<^verbatim>\<open>return\<close>, \<open>Some\<close> the pushed record\<close>
  "analyzeCycle fl getTime now events data index halving =
     (case findHalvingPriceData data (getTime (HalvingEvent.date halving)) of
        None \<Rightarrow> None
      | Some halvingPriceData \<Rightarrow>
          Some (buildAnalysis fl getTime now events data index halving halvingPriceData))"

fun forEachHalving ::
  "(real \<Rightarrow> number) \<Rightarrow> (string \<Rightarrow> int) \<Rightarrow> int \<Rightarrow> HalvingEvent list \<Rightarrow> PriceData list
     \<Rightarrow> HalvingEvent list \<Rightarrow> nat \<Rightarrow> CycleAnalysis list \<Rightarrow> CycleAnalysis list" where
  \<comment> \<open>\<^verbatim>\<open>EVENTS.forEach((halving, index) => ...)\<close> pushing onto \<^verbatim>\<open>analyses\<close>\<close>
  "forEachHalving fl getTime now events data [] index analyses = analyses"
| "forEachHalving fl getTime now events data (halving # rest) index analyses =
     forEachHalving fl getTime now events data rest (index + 1)
       (case analyzeCycle fl getTime now events data index halving of
          None \<Rightarrow> analyses
        | Some a \<Rightarrow> analyses @ [a])"

definition analyzeEvents ::
  "(real \<Rightarrow> number) \<Rightarrow> (string \<Rightarrow> int) \<Rightarrow> int \<Rightarrow> HalvingEvent list \<Rightarrow> PriceData list \<Rightarrow> CycleAnalysis list" where
  "analyzeEvents fl getTime now events data = forEachHalving fl getTime now events data events 0 []"

definition analyzeHalvingCycles ::
  "(real \<Rightarrow> number) \<Rightarrow> (string \<Rightarrow> int) \<Rightarrow> int \<Rightarrow> PriceData list \<Rightarrow> CycleAnalysis list" where
  "analyzeHalvingCycles fl getTime now data = analyzeEvents fl getTime now HALVING_EVENTS data"

subsection \<open>Chart filter\<close>

text \<open>
  The state variable \<^verbatim>\<open>selectedCycle\<close> is the string \<^verbatim>\<open>'all'\<close> or a cycle number; the
  price series and the selection, component state in the source, are arguments here.
\<close>

datatype selection = AllCycles | Cycle int

definition getFilteredData ::
  "(string \<Rightarrow> int) \<Rightarrow> HalvingEvent list \<Rightarrow> PriceData list \<Rightarrow> selection \<Rightarrow> PriceData list" where
  "getFilteredData getTime events priceData selectedCycle =
     (case selectedCycle of
        AllCycles \<Rightarrow> priceData
      | Cycle c \<Rightarrow>
         (case find (\<lambda>h. HalvingEvent.cycle h = c) events of
            None \<Rightarrow> priceData
          | Some halving \<Rightarrow>
             (let halvingTimestamp = getTime (HalvingEvent.date halving);
                  startTime = halvingTimestamp - (365 * 24 * 60 * 60 * 1000);
                  endTime = halvingTimestamp + (550 * 24 * 60 * 60 * 1000)
              in filter (\<lambda>d. timestamp d \<ge> startTime \<and> timestamp d \<le> endTime) priceData)))"

subsection \<open>Example inputs\<close>

text \<open>
  A concrete reading of the clock and of \<^verbatim>\<open>new Date(s).getTime()\<close> at the date
  strings the examples pass to it (UTC midnight of the day; the value 0 at any other
  string is never used), and small price series around the first configured event
  (2012-11-28, 1354060800000 ms). The examples run with \<open>fl = Num\<close>, arithmetic without
  rounding: their prices are chosen so that every difference, quotient and product the
  source computes on them is a short binary fraction, which rounding to a double leaves
  as it is. The series \<open>exNear\<close> further down is the exception and comes with its own
  rounding.
\<close>

definition exGetTime :: "string \<Rightarrow> int" where
  "exGetTime s =
     (if s = ''2012-11-28'' then 1354060800000
      else if s = ''2012-11-29'' then 1354147200000
      else if s = ''2012-11-30'' then 1354233600000
      else if s = ''2016-07-09'' then 1468022400000
      else if s = ''2020-05-11'' then 1589155200000
      else if s = ''2024-04-20'' then 1713571200000
      else 0)"

definition exNow :: int where
  "exNow = 1800000000000"

definition exData :: "PriceData list" where
  "exData =
     [\<lparr>PriceData.date = ''2011-11-29'', price = 50, timestamp = 1322524800000\<rparr>,
      \<lparr>PriceData.date = ''2012-11-28'', price = 100, timestamp = 1354060800000\<rparr>,
      \<lparr>PriceData.date = ''2012-11-29'', price = 50, timestamp = 1354147200000\<rparr>,
      \<lparr>PriceData.date = ''2012-11-30'', price = 200, timestamp = 1354233600000\<rparr>,
      \<lparr>PriceData.date = ''2012-12-01'', price = 150, timestamp = 1354320000000\<rparr>,
      \<lparr>PriceData.date = ''2012-12-02'', price = 125, timestamp = 1354406400000\<rparr>,
      \<lparr>PriceData.date = ''2012-12-03'', price = 100, timestamp = 1354492800000\<rparr>]"

definition exAnalysis :: CycleAnalysis where
  "exAnalysis =
     \<lparr>CycleAnalysis.cycle = 1, halvingDate = ''2012-11-28'',
      preHalvingData =
        \<lparr>startDate = ''2011-11-29'', startPrice = 50, halvingPrice = 100,
         PreHalving.percentageGain = Num 100, daysAnalyzed = 2\<rparr>,
      postHalvingData =
        \<lparr>peakDate = ''2012-11-30'', peakPrice = 200, PostHalving.percentageGain = Num 100,
         crashDate = Some ''2012-12-02'', crashPrice = Some 125,
         percentageFromPeak = Some (Num (- 75 / 2)), daysToPeak = 2\<rparr>\<rparr>"



text \<open>A series whose only sample lies one hour after the first event.\<close>

definition exLate :: "PriceData list" where
  "exLate = [\<lparr>PriceData.date = ''2012-11-28'', price = 100, timestamp = 1354064400000\<rparr>]"

definition exLateAnalysis :: CycleAnalysis where
  "exLateAnalysis =
     \<lparr>CycleAnalysis.cycle = 1, halvingDate = ''2012-11-28'',
      preHalvingData =
        \<lparr>startDate = ''2012-11-28'', startPrice = 0, halvingPrice = 100,
         PreHalving.percentageGain = PosInf, daysAnalyzed = 0\<rparr>,
      postHalvingData =
        \<lparr>peakDate = ''2012-11-28'', peakPrice = 100, PostHalving.percentageGain = Num 0,
         crashDate = None, crashPrice = None, percentageFromPeak = None, daysToPeak = 0\<rparr>\<rparr>"

text \<open>The first series extended by a sample on the day of the second event.\<close>

definition exChart :: "PriceData list" where
  "exChart =
     exData @ [\<lparr>PriceData.date = ''2016-07-09'', price = 650, timestamp = 1468022400000\<rparr>]"

text \<open>A clock that runs one second behind the last sample of \<open>exData\<close>.\<close>

definition exSlowClock :: int where
  "exSlowClock = 1354492799000"

text \<open>
  A series that ends just short of the threshold: the halving-day price 1, the peak 3,
  then the double nearest to 2.1, which is \<open>4728779608739021 / 2 ^ 51\<close>. The exact
  drawdown of the last sample is a little below 30. In double arithmetic the difference
  \<open>3 - 2.1\<close> is exact, its third rounds up to \<open>5404319552844595 / 2 ^ 54\<close> and the
  product with 100 rounds to 30. \<open>exRound\<close> is round-to-nearest at the four values
  where it matters for this series (the two quotients, the two products) and leaves
  every other value as it is.
\<close>

definition exNear :: "PriceData list" where
  "exNear =
     [\<lparr>PriceData.date = ''2012-11-28'', price = 1, timestamp = 1354060800000\<rparr>,
      \<lparr>PriceData.date = ''2012-11-29'', price = 3, timestamp = 1354147200000\<rparr>,
      \<lparr>PriceData.date = ''2012-11-30'', price = 4728779608739021 / 2251799813685248,
        timestamp = 1354233600000\<rparr>]"

definition exRound :: "real \<Rightarrow> number" where
  "exRound x =
     (if x = 2026619832316723 / 6755399441055744 then Num (5404319552844595 / 18014398509481984)
      else if x = - (2026619832316723 / 6755399441055744)
        then Num (- (5404319552844595 / 18014398509481984))
      else if x = 135107988821114875 / 4503599627370496 then Num 30
      else if x = - (135107988821114875 / 4503599627370496) then Num (- 30)
      else Num x)"


section \<open>Properties of the loops\<close>

lemma crashLoop_foldl:
  "crashLoop fl post p i st = foldl (\<lambda>s d. crashStep fl p d s) st (drop i post)"
proof (induction fl post p i st rule: crashLoop.induct)
  case (1 fl post p i st)
  show ?case
  proof (cases "i < length post")
    case True
    then have "drop i post = post ! i # drop (i + 1) post"
      by (simp add: Cons_nth_drop_Suc)
    with True 1 show ?thesis
      by (subst crashLoop.simps) simp
  next
    case False
    then show ?thesis by (subst crashLoop.simps) simp
  qed
qed

lemma peakLoop_ge:
  "peakLoop xs i (pp, pd, ix) = (pp', pd', ix') \<Longrightarrow>
     pp \<le> pp' \<and> (\<forall>d\<in>set xs. price d \<le> pp')"
proof (induction xs arbitrary: i pp pd ix)
  case Nil
  then show ?case by simp
next
  case (Cons d ds)
  then show ?case
    by (fastforce split: if_splits)
qed

lemma peakLoop_none:
  "\<forall>d\<in>set xs. price d \<le> pp \<Longrightarrow> peakLoop xs i (pp, pd, ix) = (pp, pd, ix)"
  by (induction xs arbitrary: i) auto

lemma peakLoop_some:
  "\<exists>d\<in>set xs. pp < price d \<Longrightarrow> peakLoop xs i (pp, pd, ix) = (pp', pd', ix') \<Longrightarrow>
     i \<le> ix' \<and> ix' < i + length xs \<and> price (xs ! (ix' - i)) = pp'
       \<and> PriceData.date (xs ! (ix' - i)) = pd' \<and> (\<forall>j < ix' - i. price (xs ! j) < pp') \<and> pp < pp'"
proof (induction xs arbitrary: i pp pd ix)
  case Nil
  then show ?case by simp
next
  case (Cons d ds)
  show ?case
  proof (cases "pp < price d")
    case True
    note gt = this
    show ?thesis
    proof (cases "\<exists>e\<in>set ds. price d < price e")
      case True
      from Cons.prems(2) gt have "peakLoop ds (i + 1) (price d, PriceData.date d, i) = (pp', pd', ix')"
        by simp
      from Cons.IH[OF True this] gt show ?thesis
        by (auto simp: nth_Cons' Suc_diff_le less_Suc_eq_0_disj)
    next
      case False
      then have "\<forall>e\<in>set ds. price e \<le> price d" by auto
      from peakLoop_none[OF this] Cons.prems(2) gt show ?thesis by auto
    qed
  next
    case False
    with Cons.prems(1) have ex: "\<exists>e\<in>set ds. pp < price e" by auto
    from Cons.prems(2) False have "peakLoop ds (i + 1) (pp, pd, ix) = (pp', pd', ix')"
      by simp
    from Cons.IH[OF ex this] False show ?thesis
      by (auto simp: nth_Cons' Suc_diff_le less_Suc_eq_0_disj)
  qed
qed






lemma crash_inv:
  "foldl (\<lambda>s d. crashStep fl p d s) (cd, cp, md) xs = (cd', cp', md') \<Longrightarrow>
     (cd \<noteq> None \<longrightarrow> cd' \<noteq> None)
     \<and> ((cd' = cd \<and> cp' = cp)
        \<or> (\<exists>d\<in>set xs. ge_num (drawdown fl p d) (Num 30)
              \<and> cd' = Some (PriceData.date d) \<and> cp' = Some (price d)))"
proof (induction xs arbitrary: cd cp md)
  case Nil
  then show ?case by simp
next
  case (Cons d ds)
  obtain cd1 cp1 md1 where s1: "crashStep fl p d (cd, cp, md) = (cd1, cp1, md1)"
    by (cases "crashStep fl p d (cd, cp, md)") auto
  with Cons.prems have "foldl (\<lambda>s d. crashStep fl p d s) (cd1, cp1, md1) ds = (cd', cp', md')"
    by simp
  from Cons.IH[OF this] have ih: "(cd1 \<noteq> None \<longrightarrow> cd' \<noteq> None)"
     "(cd' = cd1 \<and> cp' = cp1)
        \<or> (\<exists>d\<in>set ds. ge_num (drawdown fl p d) (Num 30)
              \<and> cd' = Some (PriceData.date d) \<and> cp' = Some (price d))" by auto
  from s1 have st: "(cd1 = cd \<and> cp1 = cp)
     \<or> (ge_num (drawdown fl p d) (Num 30) \<and> cd1 = Some (PriceData.date d) \<and> cp1 = Some (price d))"
    by (auto split: if_splits)
  from ih st show ?case by auto
qed


lemma analyzeCycle_SomeD:
  assumes "analyzeCycle fl getTime now events data index halving = Some a"
  shows "\<exists>h. findHalvingPriceData data (getTime (HalvingEvent.date halving)) = Some h
            \<and> a = buildAnalysis fl getTime now events data index halving h"
  using assms by (auto simp: analyzeCycle_def split: option.splits)

lemma buildAnalysis_fields:
  fixes fl getTime now events data index halving h
  defines "T \<equiv> getTime (HalvingEvent.date halving)"
  defines "pre \<equiv> preHalvingFilter data T"
  defines "post \<equiv> postHalvingFilter getTime now events index data T"
  defines "pk \<equiv> findPeak (price h) (HalvingEvent.date halving) post"
  defines "cr \<equiv> findCrash fl (fst pk) (snd (snd pk)) post"
  defines "a \<equiv> buildAnalysis fl getTime now events data index halving h"
  shows "CycleAnalysis.cycle a = HalvingEvent.cycle halving"
    and "halvingDate a = HalvingEvent.date halving"
    and "startDate (preHalvingData a) =
          (case pre of [] \<Rightarrow> HalvingEvent.date halving
           | d # _ \<Rightarrow> if PriceData.date d \<noteq> [] then PriceData.date d
                      else HalvingEvent.date halving)"
    and "startPrice (preHalvingData a) =
          (case pre of [] \<Rightarrow> 0 | d # _ \<Rightarrow> if price d \<noteq> 0 then price d else 0)"
    and "halvingPrice (preHalvingData a) = price h"
    and "PreHalving.percentageGain (preHalvingData a) =
          mul_num fl (div_num fl (sub_num fl (price h) (startPrice (preHalvingData a)))
                        (startPrice (preHalvingData a))) 100"
    and "daysAnalyzed (preHalvingData a) = length pre"
    and "peakDate (postHalvingData a) = fst (snd pk)"
    and "peakPrice (postHalvingData a) = fst pk"
    and "PostHalving.percentageGain (postHalvingData a) =
          mul_num fl (div_num fl (sub_num fl (fst pk) (price h)) (price h)) 100"
    and "crashDate (postHalvingData a) = fst cr"
    and "crashPrice (postHalvingData a) = fst (snd cr)"
    and "percentageFromPeak (postHalvingData a) =
          (case fst (snd cr) of None \<Rightarrow> None
           | Some c \<Rightarrow> if c \<noteq> 0
                       then Some (mul_num fl (div_num fl (sub_num fl c (fst pk)) (fst pk)) 100)
                       else None)"
    and "daysToPeak (postHalvingData a) = (getTime (fst (snd pk)) - T) div (24 * 60 * 60 * 1000)"
  unfolding a_def cr_def pk_def post_def pre_def T_def
  by (simp_all add: buildAnalysis_def Let_def case_prod_beta)


lemma set_postHalvingFilter:
  "set (postHalvingFilter getTime now events index data T) \<subseteq> set data"
  by (auto simp: postHalvingFilter_def)

lemma findCrash_foldl:
  "findCrash fl p i post = foldl (\<lambda>s d. crashStep fl p d s) (None, None, Num 0) (drop i post)"
  by (simp add: findCrash_def crashLoop_foldl)



lemma findPeak_bounds:
  "hp \<le> fst (findPeak hp hDate post) \<and> (\<forall>d\<in>set post. price d \<le> fst (findPeak hp hDate post))"
  using peakLoop_ge[of post 0 hp hDate 0]
  by (cases "findPeak hp hDate post") (auto simp: findPeak_def)

lemma findPeak_seed:
  "\<forall>d\<in>set post. price d \<le> hp \<Longrightarrow> findPeak hp hDate post = (hp, hDate, 0)"
  by (simp add: findPeak_def peakLoop_none)

lemma findPeak_first_max:
  assumes "\<exists>d\<in>set post. hp < price d"
  shows "snd (snd (findPeak hp hDate post)) < length post
     \<and> price (post ! snd (snd (findPeak hp hDate post))) = fst (findPeak hp hDate post)
     \<and> PriceData.date (post ! snd (snd (findPeak hp hDate post))) = fst (snd (findPeak hp hDate post))
     \<and> (\<forall>j < snd (snd (findPeak hp hDate post)). price (post ! j) < fst (findPeak hp hDate post))
     \<and> hp < fst (findPeak hp hDate post)"
proof -
  obtain pp pd ix where r: "peakLoop post 0 (hp, hDate, 0) = (pp, pd, ix)"
    by (cases "peakLoop post 0 (hp, hDate, 0)") auto
  from peakLoop_some[OF assms r] r show ?thesis
    by (simp add: findPeak_def)
qed


lemma exact_gain:
  "b \<noteq> 0 \<Longrightarrow> mul_num Num (div_num Num (sub_num Num e s) b) c = Num ((e - s) / b * c)"
  by (simp add: sub_num_def)

lemma div_num_not_finite: "\<not> isFinite (mul_num fl (div_num fl x 0) 100)"
  by (cases x) auto






lemma findCrash_consistent:
  "(fst (findCrash fl p i post) = None \<and> fst (snd (findCrash fl p i post)) = None)
   \<or> (\<exists>d\<in>set post. ge_num (drawdown fl p d) (Num 30)
         \<and> fst (findCrash fl p i post) = Some (PriceData.date d)
         \<and> fst (snd (findCrash fl p i post)) = Some (price d))"
proof -
  obtain cd cp md where r: "findCrash fl p i post = (cd, cp, md)"
    by (cases "findCrash fl p i post") auto
  then have "foldl (\<lambda>s d. crashStep fl p d s) (None, None, Num 0) (drop i post) = (cd, cp, md)"
    by (simp add: findCrash_foldl)
  from crash_inv[OF this] r show ?thesis
    by (auto dest: in_set_dropD)
qed


lemma forEachHalving_map_filter:
  "forEachHalving fl getTime now events data rest index analyses
     = analyses @ List.map_filter (\<lambda>(i, h). analyzeCycle fl getTime now events data i h)
                    (List.enumerate index rest)"
  by (induction rest arbitrary: index analyses)
     (auto simp: List.map_filter_simps split: option.splits)

lemma analyzeEvents_map_filter:
  "analyzeEvents fl getTime now events data
     = List.map_filter (\<lambda>(i, h). analyzeCycle fl getTime now events data i h)
         (List.enumerate 0 events)"
  by (simp add: analyzeEvents_def forEachHalving_map_filter)

lemma set_map_filter_iff:
  "y \<in> set (List.map_filter f xs) \<longleftrightarrow> (\<exists>x\<in>set xs. f x = Some y)"
  by (induction xs) (auto simp: List.map_filter_simps split: option.splits)

lemma set_analyzeEvents:
  "a \<in> set (analyzeEvents fl getTime now events data)
     \<longleftrightarrow> (\<exists>i<length events. analyzeCycle fl getTime now events data i (events ! i) = Some a)"
proof
  assume "a \<in> set (analyzeEvents fl getTime now events data)"
  then obtain i h where "(i, h) \<in> set (List.enumerate 0 events)"
      "analyzeCycle fl getTime now events data i h = Some a"
    by (auto simp: analyzeEvents_map_filter set_map_filter_iff)
  then show "\<exists>i<length events. analyzeCycle fl getTime now events data i (events ! i) = Some a"
    by (auto simp: in_set_enumerate_eq)
next
  assume "\<exists>i<length events. analyzeCycle fl getTime now events data i (events ! i) = Some a"
  then obtain i where i: "i < length events"
      "analyzeCycle fl getTime now events data i (events ! i) = Some a" by blast
  then have "(i, events ! i) \<in> set (List.enumerate 0 events)"
    by (simp add: in_set_enumerate_eq)
  with i(2) have "\<exists>x\<in>set (List.enumerate 0 events).
      (case x of (j, h) \<Rightarrow> analyzeCycle fl getTime now events data j h) = Some a"
    by (intro bexI[of _ "(i, events ! i)"]) simp_all
  then show "a \<in> set (analyzeEvents fl getTime now events data)"
    by (simp add: analyzeEvents_map_filter set_map_filter_iff)
qed

lemma map_filter_skip:
  "\<forall>x\<in>set xs. \<not> Q x \<longrightarrow> f x = None
     \<Longrightarrow> List.map_filter f (filter Q xs) = List.map_filter f xs"
  by (induction xs) (auto simp: List.map_filter_simps split: option.splits)

lemma length_map_filter_le: "length (List.map_filter f xs) \<le> length xs"
  by (induction xs) (auto simp: List.map_filter_simps split: option.splits)

lemma analyzeCycle_cycle:
  "analyzeCycle fl getTime now events data index halving = Some a
     \<Longrightarrow> CycleAnalysis.cycle a = HalvingEvent.cycle halving"
  by (auto dest!: analyzeCycle_SomeD simp: buildAnalysis_fields)

lemma findHalvingPriceData_None:
  "\<forall>d\<in>set data. \<not> \<bar>timestamp d - T\<bar> < 86400000 \<Longrightarrow> findHalvingPriceData data T = None"
  by (simp add: findHalvingPriceData_def find_None_iff)

section \<open>The example series, evaluated\<close>

lemma exPost:
  "postHalvingFilter exGetTime exNow HALVING_EVENTS 0 exData
     (exGetTime (HalvingEvent.date (HALVING_EVENTS ! 0))) = drop 2 exData"
  by (simp add: postHalvingFilter_def analysisEnd_def nextHalvingTimestamp_def
        HALVING_EVENTS_def exGetTime_def exNow_def exData_def)

lemma exPre:
  "preHalvingFilter exData (exGetTime (HalvingEvent.date (HALVING_EVENTS ! 0))) = take 2 exData"
  by (simp add: preHalvingFilter_def exData_def exGetTime_def HALVING_EVENTS_def)


lemmas ex_defs = analyzeCycle_def buildAnalysis_def Let_def findHalvingPriceData_def
  preHalvingFilter_def postHalvingFilter_def analysisEnd_def nextHalvingTimestamp_def
  findPeak_def findCrash_foldl drawdown_def sub_num_def falsyDate_def
  HALVING_EVENTS_def exGetTime_def exNow_def

lemma exAnalyze:
  "analyzeCycle Num exGetTime exNow HALVING_EVENTS exData 0 (HALVING_EVENTS ! 0) = Some exAnalysis"
  by (simp add: ex_defs exData_def exAnalysis_def)


lemma exData_prices: "\<forall>d\<in>set exData. 0 < price d"
  by (simp add: exData_def)



lemma exLateAnalyze:
  "analyzeCycle Num exGetTime exNow HALVING_EVENTS exLate 0 (HALVING_EVENTS ! 0) = Some exLateAnalysis"
  by (simp add: ex_defs exLate_def exLateAnalysis_def)

lemma exLateFind:
  "findHalvingPriceData exLate (exGetTime (HalvingEvent.date (HALVING_EVENTS ! 0)))
     = Some (exLate ! 0)"
  by (simp add: findHalvingPriceData_def exLate_def exGetTime_def HALVING_EVENTS_def)

lemma exLatePre:
  "preHalvingFilter exLate (exGetTime (HalvingEvent.date (HALVING_EVENTS ! 0))) = []"
  by (simp add: preHalvingFilter_def exLate_def exGetTime_def HALVING_EVENTS_def)

lemma exNone1:
  "analyzeCycle Num exGetTime exNow HALVING_EVENTS exData (Suc 0) (HALVING_EVENTS ! Suc 0) = None"
  by (simp add: analyzeCycle_def findHalvingPriceData_def exData_def exGetTime_def
        HALVING_EVENTS_def)

lemma exNone2:
  "analyzeCycle Num exGetTime exNow HALVING_EVENTS exData (Suc (Suc 0))
     (HALVING_EVENTS ! Suc (Suc 0)) = None"
  by (simp add: analyzeCycle_def findHalvingPriceData_def exData_def exGetTime_def
        HALVING_EVENTS_def)

lemma exNone3:
  "analyzeCycle Num exGetTime exNow HALVING_EVENTS exData (Suc (Suc (Suc 0)))
     (HALVING_EVENTS ! Suc (Suc (Suc 0))) = None"
  by (simp add: analyzeCycle_def findHalvingPriceData_def exData_def exGetTime_def
        HALVING_EVENTS_def)

lemma HALVING_EVENTS_nth:
  "HALVING_EVENTS = [HALVING_EVENTS ! 0, HALVING_EVENTS ! Suc 0,
      HALVING_EVENTS ! Suc (Suc 0), HALVING_EVENTS ! Suc (Suc (Suc 0))]"
  by (simp add: HALVING_EVENTS_def)

lemma exAll: "analyzeHalvingCycles Num exGetTime exNow exData = [exAnalysis]"
proof -
  have "forEachHalving Num exGetTime exNow HALVING_EVENTS exData
          [HALVING_EVENTS ! 0, HALVING_EVENTS ! Suc 0,
           HALVING_EVENTS ! Suc (Suc 0), HALVING_EVENTS ! Suc (Suc (Suc 0))] 0 []
        = [exAnalysis]"
    by (simp add: exAnalyze exNone1 exNone2 exNone3)
  then have "forEachHalving Num exGetTime exNow HALVING_EVENTS exData HALVING_EVENTS 0 []
        = [exAnalysis]"
    by (subst (2) HALVING_EVENTS_nth)
  then show ?thesis
    by (simp only: analyzeHalvingCycles_def analyzeEvents_def)
qed

text \<open>Rounding decides the threshold test on \<open>exNear\<close>.\<close>

lemma exNear_exact:
  "drawdown Num 3 (exNear ! 2) = Num (50665495807918075 / 1688849860263936)
   \<and> \<not> ge_num (drawdown Num 3 (exNear ! 2)) (Num 30)
   \<and> findCrash Num 3 0 (drop 1 exNear) = (None, None, Num (50665495807918075 / 1688849860263936))"
  by (simp add: findCrash_foldl drawdown_def sub_num_def falsyDate_def exNear_def)

lemma exNear_rounded:
  "drawdown exRound 3 (exNear ! 2) = Num 30
   \<and> findCrash exRound 3 0 (drop 1 exNear)
       = (Some ''2012-11-30'', Some (4728779608739021 / 2251799813685248), Num 30)"
  by (simp add: findCrash_foldl drawdown_def sub_num_def falsyDate_def exNear_def exRound_def)





section \<open>The claims\<close>








text \<open>
  Claim C4. For an emitted record whose halving-day price is not zero (prices are
  positive), with \<open>post\<close> the post-event window in series order: the peak price is at
  least the halving-day price and at least every price in the window. If no price in
  the window exceeds the halving-day price, the peak is the halving day itself (its
  price and the event's date) and the post-halving gain is 0 (the difference is 0, and
  rounding leaves 0 as it is). Otherwise the peak is a sample of the window, namely
  the first one (lowest index) whose price equals the maximum, every sample before it
  being strictly cheaper; when the series is sorted by timestamp no sample with the peak
  price is earlier in time.
\<close>

theorem peak_search_first_maximum:
  fixes fl getTime now events data index halving a
  defines "post \<equiv> postHalvingFilter getTime now events index data
                     (getTime (HalvingEvent.date halving))"
  defines "hPrice \<equiv> halvingPrice (preHalvingData a)"
  defines "pPrice \<equiv> peakPrice (postHalvingData a)"
  assumes "analyzeCycle fl getTime now events data index halving = Some a"
    and "hPrice \<noteq> 0"
  shows "hPrice \<le> pPrice
       \<and> (\<forall>d\<in>set post. price d \<le> pPrice)
       \<and> ((\<forall>d\<in>set post. price d \<le> hPrice) \<longrightarrow>
            pPrice = hPrice
            \<and> peakDate (postHalvingData a) = HalvingEvent.date halving
            \<and> (fl 0 = Num 0 \<longrightarrow> PostHalving.percentageGain (postHalvingData a) = Num 0))
       \<and> ((\<exists>d\<in>set post. hPrice < price d) \<longrightarrow>
            (\<exists>k<length post.
                price (post ! k) = pPrice
              \<and> PriceData.date (post ! k) = peakDate (postHalvingData a)
              \<and> (\<forall>j<k. price (post ! j) < pPrice)
              \<and> (sorted (map timestamp data) \<longrightarrow>
                   (\<forall>d\<in>set post. price d = pPrice \<longrightarrow> timestamp (post ! k) \<le> timestamp d))))"
proof -
  from analyzeCycle_SomeD[OF assms(4)] obtain h where
    h: "findHalvingPriceData data (getTime (HalvingEvent.date halving)) = Some h"
    and a: "a = buildAnalysis fl getTime now events data index halving h" by blast
  let ?pk = "findPeak (price h) (HalvingEvent.date halving) post"
  have hp: "hPrice = price h"
    and pp: "pPrice = fst ?pk"
    and pd: "peakDate (postHalvingData a) = fst (snd ?pk)"
    and pg: "PostHalving.percentageGain (postHalvingData a)
               = mul_num fl (div_num fl (sub_num fl (fst ?pk) (price h)) (price h)) 100"
    unfolding hPrice_def pPrice_def post_def a by (simp_all add: buildAnalysis_fields)
  from assms(5) have hpos: "price h \<noteq> 0" by (simp add: hp)
  have c1: "hPrice \<le> pPrice" and c2: "\<forall>d\<in>set post. price d \<le> pPrice"
    using findPeak_bounds[of "price h" "HalvingEvent.date halving" post]
    by (simp_all add: hp pp)
  have c3: "pPrice = hPrice \<and> peakDate (postHalvingData a) = HalvingEvent.date halving
            \<and> (fl 0 = Num 0 \<longrightarrow> PostHalving.percentageGain (postHalvingData a) = Num 0)"
    if "\<forall>d\<in>set post. price d \<le> hPrice"
  proof -
    from that have "?pk = (price h, HalvingEvent.date halving, 0)"
      unfolding hp by (rule findPeak_seed)
    with hpos show ?thesis by (simp add: hp pp pd pg sub_num_def)
  qed
  have c4: "\<exists>k<length post.
                price (post ! k) = pPrice
              \<and> PriceData.date (post ! k) = peakDate (postHalvingData a)
              \<and> (\<forall>j<k. price (post ! j) < pPrice)
              \<and> (sorted (map timestamp data) \<longrightarrow>
                   (\<forall>d\<in>set post. price d = pPrice \<longrightarrow> timestamp (post ! k) \<le> timestamp d))"
    if "\<exists>d\<in>set post. hPrice < price d"
  proof -
    let ?k = "snd (snd ?pk)"
    from that have ex: "\<exists>d\<in>set post. price h < price d" by (simp add: hp)
    note fm = findPeak_first_max[OF ex, of "HalvingEvent.date halving"]
    have k: "?k < length post" "price (post ! ?k) = pPrice"
      "PriceData.date (post ! ?k) = peakDate (postHalvingData a)"
      "\<forall>j<?k. price (post ! j) < pPrice"
      using fm by (simp_all add: pp pd)
    have "timestamp (post ! ?k) \<le> timestamp d"
      if srt: "sorted (map timestamp data)" and d: "d \<in> set post" "price d = pPrice" for d
    proof -
      from d(1) obtain j where j: "j < length post" "post ! j = d"
        by (auto simp: in_set_conv_nth)
      with d(2) k(4) have "?k \<le> j" by (metis less_irrefl not_le_imp_less)
      moreover from srt have "sorted (map timestamp post)"
        unfolding post_def postHalvingFilter_def by (simp add: sorted_map sorted_wrt_filter)
      ultimately have "map timestamp post ! ?k \<le> map timestamp post ! j"
        using j(1) by (simp add: sorted_iff_nth_mono del: nth_map)
      with j k(1) show ?thesis by simp
    qed
    with k show ?thesis by blast
  qed
  from c1 c2 c3 c4 show ?thesis by blast
qed

theorem peak_search_first_maximum_witness:
  "analyzeCycle Num exGetTime exNow HALVING_EVENTS exData 0 (HALVING_EVENTS ! 0) = Some exAnalysis
   \<and> halvingPrice (preHalvingData exAnalysis) \<noteq> 0
   \<and> halvingPrice (preHalvingData exAnalysis) \<le> peakPrice (postHalvingData exAnalysis)
   \<and> list_all (\<lambda>d. price d \<le> peakPrice (postHalvingData exAnalysis)) (drop 2 exData)
   \<and> (\<exists>k<length (drop 2 exData).
          price (drop 2 exData ! k) = peakPrice (postHalvingData exAnalysis)
        \<and> PriceData.date (drop 2 exData ! k) = peakDate (postHalvingData exAnalysis)
        \<and> (\<forall>j<k. price (drop 2 exData ! j) < peakPrice (postHalvingData exAnalysis)))"
proof -
  have nz: "halvingPrice (preHalvingData exAnalysis) \<noteq> 0"
    by (simp add: exAnalysis_def)
  note inst = peak_search_first_maximum[OF exAnalyze nz, unfolded exPost]
  have "\<exists>d\<in>set (drop 2 exData). halvingPrice (preHalvingData exAnalysis) < price d"
    by (simp add: exData_def exAnalysis_def)
  with inst have "\<exists>k<length (drop 2 exData).
          price (drop 2 exData ! k) = peakPrice (postHalvingData exAnalysis)
        \<and> PriceData.date (drop 2 exData ! k) = peakDate (postHalvingData exAnalysis)
        \<and> (\<forall>j<k. price (drop 2 exData ! j) < peakPrice (postHalvingData exAnalysis))"
    by blast
  moreover from inst
  have "list_all (\<lambda>d. price d \<le> peakPrice (postHalvingData exAnalysis)) (drop 2 exData)"
    unfolding list_all_iff by blast
  ultimately show ?thesis using exAnalyze nz inst by blast
qed

text \<open>
  Claim C5. If no sample lies within one day (86400000 ms) of the timestamp of the
  event at position \<open>i\<close>, the callback returns early for that event and pushes nothing;
  the result of the pass is a value (the function is total), namely the records of the
  other events in table order, each as computed for its own event, so it is shorter than
  the event table; with distinct cycle numbers no record carries the skipped event's
  cycle number.
\<close>

theorem unobservable_event_is_skipped:
  assumes "i < length events"
    and "\<forall>d\<in>set data. \<not> \<bar>timestamp d - getTime (HalvingEvent.date (events ! i))\<bar> < 86400000"
  shows "analyzeCycle fl getTime now events data i (events ! i) = None
       \<and> analyzeEvents fl getTime now events data
           = List.map_filter (\<lambda>(j, h). analyzeCycle fl getTime now events data j h)
               (filter (\<lambda>(j, h). j \<noteq> i) (List.enumerate 0 events))
       \<and> length (analyzeEvents fl getTime now events data) < length events
       \<and> (distinct (map HalvingEvent.cycle events) \<longrightarrow>
            HalvingEvent.cycle (events ! i)
              \<notin> CycleAnalysis.cycle ` set (analyzeEvents fl getTime now events data))"
proof -
  let ?f = "\<lambda>(j, h). analyzeCycle fl getTime now events data j h"
  let ?Q = "\<lambda>(j :: nat, h :: HalvingEvent). j \<noteq> i"
  have none: "analyzeCycle fl getTime now events data i (events ! i) = None"
    by (simp add: analyzeCycle_def findHalvingPriceData_None[OF assms(2)])
  have skip: "\<forall>x\<in>set (List.enumerate 0 events). \<not> ?Q x \<longrightarrow> ?f x = None"
    using none by (auto simp: in_set_enumerate_eq)
  have eq: "analyzeEvents fl getTime now events data
      = List.map_filter ?f (filter ?Q (List.enumerate 0 events))"
    unfolding analyzeEvents_map_filter by (rule map_filter_skip[OF skip, symmetric])
  have "(i, events ! i) \<in> set (List.enumerate 0 events)"
    using assms(1) by (simp add: in_set_enumerate_eq)
  moreover have "\<not> ?Q (i, events ! i)" by simp
  ultimately have "length (filter ?Q (List.enumerate 0 events)) < length (List.enumerate 0 events)"
    by (rule length_filter_less)
  then have lt: "length (filter ?Q (List.enumerate 0 events)) < length events"
    by (simp only: length_enumerate)
  have "length (analyzeEvents fl getTime now events data)
      \<le> length (filter ?Q (List.enumerate 0 events))"
    by (subst eq) (rule length_map_filter_le)
  from this lt have len: "length (analyzeEvents fl getTime now events data) < length events"
    by (rule le_less_trans)
  have absent: "HalvingEvent.cycle (events ! i)
        \<notin> CycleAnalysis.cycle ` set (analyzeEvents fl getTime now events data)"
    if dist: "distinct (map HalvingEvent.cycle events)"
  proof
    assume "HalvingEvent.cycle (events ! i)
        \<in> CycleAnalysis.cycle ` set (analyzeEvents fl getTime now events data)"
    then obtain a j where j: "j < length events"
        "analyzeCycle fl getTime now events data j (events ! j) = Some a"
        "CycleAnalysis.cycle a = HalvingEvent.cycle (events ! i)"
      by (auto simp: set_analyzeEvents)
    from analyzeCycle_cycle[OF j(2)] j(3)
    have "map HalvingEvent.cycle events ! j = map HalvingEvent.cycle events ! i"
      using j(1) assms(1) by simp
    with dist j(1) assms(1) have "j = i"
      by (simp add: nth_eq_iff_index_eq del: nth_map)
    with j(2) none show False by simp
  qed
  from absent have "distinct (map HalvingEvent.cycle events) \<longrightarrow>
      HalvingEvent.cycle (events ! i)
        \<notin> CycleAnalysis.cycle ` set (analyzeEvents fl getTime now events data)"
    by (rule impI)
  with none eq len show ?thesis by (intro conjI)
qed

theorem unobservable_event_is_skipped_witness:
  "1 < length HALVING_EVENTS
   \<and> list_all (\<lambda>d. \<not> \<bar>timestamp d - exGetTime (HalvingEvent.date (HALVING_EVENTS ! 1))\<bar> < 86400000)
        exData
   \<and> analyzeCycle Num exGetTime exNow HALVING_EVENTS exData 1 (HALVING_EVENTS ! 1) = None
   \<and> analyzeHalvingCycles Num exGetTime exNow exData = [exAnalysis]
   \<and> length (analyzeHalvingCycles Num exGetTime exNow exData) < length HALVING_EVENTS
   \<and> HalvingEvent.cycle (HALVING_EVENTS ! 1)
        \<notin> CycleAnalysis.cycle ` set (analyzeHalvingCycles Num exGetTime exNow exData)"
proof -
  have h1: "1 < length HALVING_EVENTS" by (simp add: HALVING_EVENTS_def)
  have h2: "\<forall>d\<in>set exData.
      \<not> \<bar>timestamp d - exGetTime (HalvingEvent.date (HALVING_EVENTS ! 1))\<bar> < 86400000"
    by (simp add: exData_def exGetTime_def HALVING_EVENTS_def)
  have dist: "distinct (map HalvingEvent.cycle HALVING_EVENTS)"
    by (simp add: HALVING_EVENTS_def)
  note inst = unobservable_event_is_skipped[where i = 1 and events = HALVING_EVENTS
      and data = exData and getTime = exGetTime and now = exNow and fl = Num, OF h1 h2,
      folded analyzeHalvingCycles_def]
  have "analyzeCycle Num exGetTime exNow HALVING_EVENTS exData 1 (HALVING_EVENTS ! 1) = None"
    by (rule inst[THEN conjunct1])
  moreover
  have "length (analyzeHalvingCycles Num exGetTime exNow exData) < length HALVING_EVENTS"
    by (rule inst[THEN conjunct2, THEN conjunct2, THEN conjunct1])
  moreover
  have "HalvingEvent.cycle (HALVING_EVENTS ! 1)
        \<notin> CycleAnalysis.cycle ` set (analyzeHalvingCycles Num exGetTime exNow exData)"
    by (rule inst[THEN conjunct2, THEN conjunct2, THEN conjunct2, THEN mp, OF dist])
  moreover have "list_all (\<lambda>d. \<not> \<bar>timestamp d
      - exGetTime (HalvingEvent.date (HALVING_EVENTS ! 1))\<bar> < 86400000) exData"
    using h2 by (simp add: list_all_iff)
  ultimately show ?thesis using h1 exAll by (intro conjI)
qed

text \<open>
  Claim C6. In an emitted record, each percentage is \<open>(end - start) / start * 100\<close>
  between its two prices, evaluated as the source does in double arithmetic: the
  pre-halving gain from the start price to the halving-day price, the post-halving gain
  from the halving-day price to the peak price, and \<open>percentageFromPeak\<close> from the peak
  price to the crash price. When no operation rounds, the value is the real number
  \<open>(end - start) / start * 100\<close> whenever the start of the fraction is not zero (a zero
  start is the degenerate case of claim C7). \<open>percentageFromPeak\<close> is present exactly
  when a non-zero crash price is. \<open>daysToPeak\<close> is the floor of the distance from the
  halving date to the peak date, in days of 86400000 ms.
\<close>

theorem gain_formulas:
  fixes fl getTime now events data index halving a
  defines "pre \<equiv> preHalvingData a"
  defines "post \<equiv> postHalvingData a"
  assumes "analyzeCycle fl getTime now events data index halving = Some a"
  shows "PreHalving.percentageGain pre
           = mul_num fl (div_num fl (sub_num fl (halvingPrice pre) (startPrice pre))
                           (startPrice pre)) 100
       \<and> PostHalving.percentageGain post
           = mul_num fl (div_num fl (sub_num fl (peakPrice post) (halvingPrice pre))
                           (halvingPrice pre)) 100
       \<and> (\<forall>c. crashPrice post = Some c \<and> c \<noteq> 0 \<longrightarrow>
              percentageFromPeak post
                = Some (mul_num fl (div_num fl (sub_num fl c (peakPrice post))
                                      (peakPrice post)) 100))
       \<and> (percentageFromPeak post \<noteq> None
            \<longleftrightarrow> (\<exists>c. crashPrice post = Some c \<and> c \<noteq> 0))
       \<and> daysToPeak post
            = \<lfloor>real_of_int (getTime (peakDate post) - getTime (halvingDate a)) / 86400000\<rfloor>
       \<and> ((\<forall>x. fl x = Num x) \<longrightarrow>
            (startPrice pre \<noteq> 0 \<longrightarrow>
               PreHalving.percentageGain pre
                 = Num ((halvingPrice pre - startPrice pre) / startPrice pre * 100))
          \<and> (halvingPrice pre \<noteq> 0 \<longrightarrow>
               PostHalving.percentageGain post
                 = Num ((peakPrice post - halvingPrice pre) / halvingPrice pre * 100))
          \<and> (\<forall>c. crashPrice post = Some c \<and> c \<noteq> 0 \<and> peakPrice post \<noteq> 0 \<longrightarrow>
                 percentageFromPeak post
                   = Some (Num ((c - peakPrice post) / peakPrice post * 100))))"
proof -
  from analyzeCycle_SomeD[OF assms(3)] obtain h where
    a: "a = buildAnalysis fl getTime now events data index halving h" by blast
  define T where "T = getTime (HalvingEvent.date halving)"
  define w where "w = postHalvingFilter getTime now events index data T"
  define pk where "pk = findPeak (price h) (HalvingEvent.date halving) w"
  define cr where "cr = findCrash fl (fst pk) (snd (snd pk)) w"
  have hp: "halvingPrice pre = price h"
    and pg: "PreHalving.percentageGain pre
               = mul_num fl (div_num fl (sub_num fl (price h) (startPrice pre))
                               (startPrice pre)) 100"
    and pp: "peakPrice post = fst pk"
    and pd: "peakDate post = fst (snd pk)"
    and hd: "halvingDate a = HalvingEvent.date halving"
    and qg: "PostHalving.percentageGain post
               = mul_num fl (div_num fl (sub_num fl (fst pk) (price h)) (price h)) 100"
    and cp: "crashPrice post = fst (snd cr)"
    and dp: "daysToPeak post = (getTime (fst (snd pk)) - T) div (24 * 60 * 60 * 1000)"
    unfolding pre_def post_def a cr_def pk_def w_def T_def
    by (simp_all add: buildAnalysis_fields)
  have fp: "percentageFromPeak post =
      (case fst (snd cr) of None \<Rightarrow> None
       | Some c \<Rightarrow> if c \<noteq> 0
                   then Some (mul_num fl (div_num fl (sub_num fl c (fst pk)) (fst pk)) 100)
                   else None)"
    unfolding post_def a cr_def pk_def w_def T_def
    by (simp add: buildAnalysis_fields)
  have c1: "PreHalving.percentageGain pre
           = mul_num fl (div_num fl (sub_num fl (halvingPrice pre) (startPrice pre))
                           (startPrice pre)) 100"
    by (simp add: pg hp)
  have c2: "PostHalving.percentageGain post
           = mul_num fl (div_num fl (sub_num fl (peakPrice post) (halvingPrice pre))
                           (halvingPrice pre)) 100"
    by (simp add: qg hp pp)
  have c3: "\<forall>c. crashPrice post = Some c \<and> c \<noteq> 0 \<longrightarrow>
              percentageFromPeak post
                = Some (mul_num fl (div_num fl (sub_num fl c (peakPrice post))
                                      (peakPrice post)) 100)"
    by (simp add: fp cp pp)
  have c4: "percentageFromPeak post \<noteq> None
            \<longleftrightarrow> (\<exists>c. crashPrice post = Some c \<and> c \<noteq> 0)"
    by (simp add: fp cp split: option.splits)
  have "daysToPeak post = (getTime (peakDate post) - getTime (halvingDate a)) div 86400000"
    by (simp add: dp pd hd T_def)
  also have "\<dots> = \<lfloor>real_of_int (getTime (peakDate post) - getTime (halvingDate a))
                      / real_of_int 86400000\<rfloor>"
    by (rule floor_divide_of_int_eq[symmetric])
  finally have c5: "daysToPeak post
      = \<lfloor>real_of_int (getTime (peakDate post) - getTime (halvingDate a)) / 86400000\<rfloor>"
    by simp
  have c6: "(startPrice pre \<noteq> 0 \<longrightarrow>
               PreHalving.percentageGain pre
                 = Num ((halvingPrice pre - startPrice pre) / startPrice pre * 100))
          \<and> (halvingPrice pre \<noteq> 0 \<longrightarrow>
               PostHalving.percentageGain post
                 = Num ((peakPrice post - halvingPrice pre) / halvingPrice pre * 100))
          \<and> (\<forall>c. crashPrice post = Some c \<and> c \<noteq> 0 \<and> peakPrice post \<noteq> 0 \<longrightarrow>
                 percentageFromPeak post
                   = Some (Num ((c - peakPrice post) / peakPrice post * 100)))"
    if ex: "\<forall>x. fl x = Num x"
  proof -
    from ex have fl: "fl = Num" by (simp add: fun_eq_iff)
    have e1: "startPrice pre \<noteq> 0 \<longrightarrow>
               PreHalving.percentageGain pre
                 = Num ((halvingPrice pre - startPrice pre) / startPrice pre * 100)"
      unfolding c1 fl by (intro impI exact_gain)
    have e2: "halvingPrice pre \<noteq> 0 \<longrightarrow>
               PostHalving.percentageGain post
                 = Num ((peakPrice post - halvingPrice pre) / halvingPrice pre * 100)"
      unfolding c2 fl by (intro impI exact_gain)
    have e3: "\<forall>c. crashPrice post = Some c \<and> c \<noteq> 0 \<and> peakPrice post \<noteq> 0 \<longrightarrow>
                 percentageFromPeak post
                   = Some (Num ((c - peakPrice post) / peakPrice post * 100))"
    proof (intro allI impI)
      fix c assume c: "crashPrice post = Some c \<and> c \<noteq> 0 \<and> peakPrice post \<noteq> 0"
      then have nz: "peakPrice post \<noteq> 0" by simp
      from c c3 have "percentageFromPeak post
          = Some (mul_num fl (div_num fl (sub_num fl c (peakPrice post))
                                      (peakPrice post)) 100)"
        by blast
      then show "percentageFromPeak post
          = Some (Num ((c - peakPrice post) / peakPrice post * 100))"
        unfolding fl exact_gain[OF nz] .
    qed
    from e1 e2 e3 show ?thesis by (intro conjI)
  qed
  from c6 have c6': "(\<forall>x. fl x = Num x) \<longrightarrow>
            (startPrice pre \<noteq> 0 \<longrightarrow>
               PreHalving.percentageGain pre
                 = Num ((halvingPrice pre - startPrice pre) / startPrice pre * 100))
          \<and> (halvingPrice pre \<noteq> 0 \<longrightarrow>
               PostHalving.percentageGain post
                 = Num ((peakPrice post - halvingPrice pre) / halvingPrice pre * 100))
          \<and> (\<forall>c. crashPrice post = Some c \<and> c \<noteq> 0 \<and> peakPrice post \<noteq> 0 \<longrightarrow>
                 percentageFromPeak post
                   = Some (Num ((c - peakPrice post) / peakPrice post * 100)))"
    by (rule impI)
  from c1 c2 c3 c4 c5 c6' show ?thesis by (intro conjI)
qed

theorem gain_formulas_witness:
  "analyzeCycle Num exGetTime exNow HALVING_EVENTS exData 0 (HALVING_EVENTS ! 0) = Some exAnalysis
   \<and> PreHalving.percentageGain (preHalvingData exAnalysis) = Num ((100 - 50) / 50 * 100)
   \<and> PostHalving.percentageGain (postHalvingData exAnalysis) = Num ((200 - 100) / 100 * 100)
   \<and> percentageFromPeak (postHalvingData exAnalysis) = Some (Num ((125 - 200) / 200 * 100))
   \<and> daysToPeak (postHalvingData exAnalysis)
       = \<lfloor>real_of_int (exGetTime ''2012-11-30'' - exGetTime ''2012-11-28'') / 86400000\<rfloor>"
proof -
  note inst = gain_formulas[OF exAnalyze]
  have ex: "\<forall>x. Num x = Num x" by simp
  note exact = inst[THEN conjunct2, THEN conjunct2, THEN conjunct2, THEN conjunct2,
      THEN conjunct2, THEN mp, OF ex]
  have f: "startPrice (preHalvingData exAnalysis) = 50"
      "halvingPrice (preHalvingData exAnalysis) = 100"
      "peakPrice (postHalvingData exAnalysis) = 200"
      "crashPrice (postHalvingData exAnalysis) = Some 125"
      "peakDate (postHalvingData exAnalysis) = ''2012-11-30''"
      "halvingDate exAnalysis = ''2012-11-28''"
    by (simp_all add: exAnalysis_def)
  have "PreHalving.percentageGain (preHalvingData exAnalysis) = Num ((100 - 50) / 50 * 100)"
    using exact[THEN conjunct1] by (simp add: f)
  moreover
  have "PostHalving.percentageGain (postHalvingData exAnalysis) = Num ((200 - 100) / 100 * 100)"
    using exact[THEN conjunct2, THEN conjunct1] by (simp add: f)
  moreover
  have "percentageFromPeak (postHalvingData exAnalysis) = Some (Num ((125 - 200) / 200 * 100))"
    using exact[THEN conjunct2, THEN conjunct2, THEN spec, of 125]
    by (simp add: f)
  moreover
  have "daysToPeak (postHalvingData exAnalysis)
       = \<lfloor>real_of_int (exGetTime ''2012-11-30'' - exGetTime ''2012-11-28'') / 86400000\<rfloor>"
    using inst[THEN conjunct2, THEN conjunct2, THEN conjunct2, THEN conjunct2, THEN conjunct1]
    by (simp only: f)
  ultimately show ?thesis using exAnalyze by (intro conjI)
qed

text \<open>
  Claim C7. If the halving-day sample of an event is found and the pre-event window is
  empty, a record is emitted for the event (a value, not a failure): its start price is
  0 and its pre-halving gain is not a finite number, being the quotient of the
  halving-day price by zero (positive infinity for a positive price; the price is a
  double, which rounding leaves as it is); when the event is the one at position
  \<open>index\<close> of the table, the record is part of the result of the pass.
\<close>

theorem empty_pre_window_gives_nonfinite_gain:
  fixes fl getTime now events data index halving h
  defines "T \<equiv> getTime (HalvingEvent.date halving)"
  assumes "findHalvingPriceData data T = Some h"
    and "preHalvingFilter data T = []"
  shows "\<exists>a. analyzeCycle fl getTime now events data index halving = Some a
           \<and> startPrice (preHalvingData a) = 0
           \<and> \<not> isFinite (PreHalving.percentageGain (preHalvingData a))
           \<and> (fl (price h) = Num (price h) \<longrightarrow>
                PreHalving.percentageGain (preHalvingData a)
                  = (if 0 < price h then PosInf else if price h < 0 then NegInf else NaN))
           \<and> (index < length events \<and> events ! index = halving
                \<longrightarrow> a \<in> set (analyzeEvents fl getTime now events data))"
proof -
  let ?a = "buildAnalysis fl getTime now events data index halving h"
  have some: "analyzeCycle fl getTime now events data index halving = Some ?a"
    using assms(2) by (simp add: analyzeCycle_def T_def)
  have sp: "startPrice (preHalvingData ?a) = 0"
    using assms(3) by (simp add: buildAnalysis_fields T_def)
  have pg: "fl (price h) = Num (price h) \<longrightarrow>
      PreHalving.percentageGain (preHalvingData ?a)
        = (if 0 < price h then PosInf else if price h < 0 then NegInf else NaN)"
    by (simp add: buildAnalysis_fields(6) sp sub_num_def)
  have nf: "\<not> isFinite (PreHalving.percentageGain (preHalvingData ?a))"
    by (simp add: buildAnalysis_fields(6) sp div_num_not_finite)
  have mem: "?a \<in> set (analyzeEvents fl getTime now events data)"
    if "index < length events \<and> events ! index = halving"
    using that some by (auto simp: set_analyzeEvents)
  from some sp pg nf mem show ?thesis by blast
qed

theorem empty_pre_window_gives_nonfinite_gain_witness:
  "findHalvingPriceData exLate (exGetTime (HalvingEvent.date (HALVING_EVENTS ! 0)))
     = Some (exLate ! 0)
   \<and> preHalvingFilter exLate (exGetTime (HalvingEvent.date (HALVING_EVENTS ! 0))) = []
   \<and> analyzeCycle Num exGetTime exNow HALVING_EVENTS exLate 0 (HALVING_EVENTS ! 0)
       = Some exLateAnalysis
   \<and> startPrice (preHalvingData exLateAnalysis) = 0
   \<and> PreHalving.percentageGain (preHalvingData exLateAnalysis) = PosInf
   \<and> \<not> isFinite (PreHalving.percentageGain (preHalvingData exLateAnalysis))
   \<and> exLateAnalysis \<in> set (analyzeEvents Num exGetTime exNow HALVING_EVENTS exLate)"
proof -
  from empty_pre_window_gives_nonfinite_gain[where getTime = exGetTime and data = exLate
      and halving = "HALVING_EVENTS ! 0" and now = exNow and events = HALVING_EVENTS
      and index = 0 and fl = Num, OF exLateFind exLatePre]
  obtain a where a: "analyzeCycle Num exGetTime exNow HALVING_EVENTS exLate 0 (HALVING_EVENTS ! 0)
        = Some a"
      "startPrice (preHalvingData a) = 0"
      "\<not> isFinite (PreHalving.percentageGain (preHalvingData a))"
      "Num (price (exLate ! 0)) = Num (price (exLate ! 0)) \<longrightarrow>
         PreHalving.percentageGain (preHalvingData a)
           = (if 0 < price (exLate ! 0) then PosInf
              else if price (exLate ! 0) < 0 then NegInf else NaN)"
      "0 < length HALVING_EVENTS \<and> HALVING_EVENTS ! 0 = HALVING_EVENTS ! 0
         \<longrightarrow> a \<in> set (analyzeEvents Num exGetTime exNow HALVING_EVENTS exLate)"
    by blast
  from a(1) exLateAnalyze have eq: "a = exLateAnalysis" by simp
  have "0 < length HALVING_EVENTS" by (simp add: HALVING_EVENTS_def)
  with a(5) have "a \<in> set (analyzeEvents Num exGetTime exNow HALVING_EVENTS exLate)" by simp
  moreover have "price (exLate ! 0) = 100" by (simp add: exLate_def)
  ultimately show ?thesis using a exLateFind exLatePre unfolding eq by simp
qed

text \<open>
  Claim C8, as stated, bounds the chart series by the upper bound of the cycle's
  post-event window, which is the least of the event time plus 550 days, the next
  event's time and the clock reading. The chart filter uses the event time plus 550
  days alone. With a clock one second behind the last sample of \<open>exData\<close>, that sample
  lies beyond the post-event window's bound and outside the window, and is part of the
  chart series of cycle 1.
\<close>

theorem chart_exceeds_post_window_bound:
  "analysisEnd exGetTime exSlowClock HALVING_EVENTS 0
       (exGetTime (HalvingEvent.date (HALVING_EVENTS ! 0))) = exSlowClock
   \<and> exSlowClock < timestamp (exData ! 6)
   \<and> exData ! 6 \<notin> set (postHalvingFilter exGetTime exSlowClock HALVING_EVENTS 0 exData
                          (exGetTime (HalvingEvent.date (HALVING_EVENTS ! 0))))
   \<and> exData ! 6 \<in> set (getFilteredData exGetTime HALVING_EVENTS exData (Cycle 1))
   \<and> getFilteredData exGetTime HALVING_EVENTS exData (Cycle 1) = exData"
proof -
  have e: "analysisEnd exGetTime exSlowClock HALVING_EVENTS 0
       (exGetTime (HalvingEvent.date (HALVING_EVENTS ! 0))) = exSlowClock"
    by (simp add: analysisEnd_def nextHalvingTimestamp_def HALVING_EVENTS_def exGetTime_def
          exSlowClock_def)
  have l: "exSlowClock < timestamp (exData ! 6)"
    by (simp add: exData_def exSlowClock_def)
  have n: "exData ! 6 \<notin> set (postHalvingFilter exGetTime exSlowClock HALVING_EVENTS 0 exData
                          (exGetTime (HalvingEvent.date (HALVING_EVENTS ! 0))))"
    using l by (simp add: postHalvingFilter_def e)
  have c: "getFilteredData exGetTime HALVING_EVENTS exData (Cycle 1) = exData"
    by (simp add: getFilteredData_def HALVING_EVENTS_def exGetTime_def exData_def)
  have m: "exData ! 6 \<in> set exData" by (simp add: exData_def)
  from e l n c m show ?thesis by simp
qed

text \<open>
  Claim C8, amended. The chart series is a function of the price series and the
  selection alone. With no cycle selected it is the whole series. With a configured
  cycle selected it is the series restricted, in order, to the samples whose timestamp
  lies between the event time minus 365 days and the event time plus 550 days (the
  source's fixed post-halving horizon, not capped by the next event or the clock), both
  inclusive. When no sample is later than the clock reading and the next event, if any,
  is at least 550 days away (as in the configured table), that upper bound selects the
  same samples as the upper bound \<open>analysisEnd\<close> of the cycle's post-event window.
\<close>

theorem chart_data_is_window_filter:
  fixes getTime :: "string \<Rightarrow> int" and now :: int and events :: "HalvingEvent list"
    and priceData :: "PriceData list" and c :: int and halving :: HalvingEvent
  defines "T \<equiv> getTime (HalvingEvent.date halving)"
  shows "getFilteredData getTime events priceData AllCycles = priceData
       \<and> (find (\<lambda>h. HalvingEvent.cycle h = c) events = Some halving \<longrightarrow>
            getFilteredData getTime events priceData (Cycle c)
              = filter (\<lambda>d. T - 365 * 86400000 \<le> timestamp d
                            \<and> timestamp d \<le> T + 550 * 86400000) priceData
          \<and> (\<forall>i. i < length events \<and> events ! i = halving
                  \<and> (\<forall>d\<in>set priceData. timestamp d \<le> now)
                  \<and> (i + 1 < length events \<longrightarrow>
                        T + 550 * 86400000 \<le> getTime (HalvingEvent.date (events ! (i + 1))))
                \<longrightarrow> getFilteredData getTime events priceData (Cycle c)
                      = filter (\<lambda>d. T - 365 * 86400000 \<le> timestamp d
                                    \<and> timestamp d \<le> analysisEnd getTime now events i T)
                          priceData))"
proof -
  have all: "getFilteredData getTime events priceData AllCycles = priceData"
    by (simp add: getFilteredData_def)
  have sel: "getFilteredData getTime events priceData (Cycle c)
              = filter (\<lambda>d. T - 365 * 86400000 \<le> timestamp d
                            \<and> timestamp d \<le> T + 550 * 86400000) priceData"
    if "find (\<lambda>h. HalvingEvent.cycle h = c) events = Some halving"
    using that by (simp add: getFilteredData_def T_def Let_def)
  have cap: "filter (\<lambda>d. T - 365 * 86400000 \<le> timestamp d
                            \<and> timestamp d \<le> T + 550 * 86400000) priceData
           = filter (\<lambda>d. T - 365 * 86400000 \<le> timestamp d
                                    \<and> timestamp d \<le> analysisEnd getTime now events i T)
                          priceData"
    if le: "\<forall>d\<in>set priceData. timestamp d \<le> now"
      and nx: "i + 1 < length events \<longrightarrow>
                 T + 550 * 86400000 \<le> getTime (HalvingEvent.date (events ! (i + 1)))"
    for i
  proof (rule filter_cong[OF refl])
    fix d assume "d \<in> set priceData"
    with le have dn: "timestamp d \<le> now" by simp
    have "timestamp d \<le> T + 550 * 86400000
        \<longleftrightarrow> timestamp d \<le> analysisEnd getTime now events i T"
      using dn nx by (auto simp: analysisEnd_def nextHalvingTimestamp_def)
    then show "(T - 365 * 86400000 \<le> timestamp d \<and> timestamp d \<le> T + 550 * 86400000)
        = (T - 365 * 86400000 \<le> timestamp d
            \<and> timestamp d \<le> analysisEnd getTime now events i T)"
      by simp
  qed
  from all sel cap show ?thesis by (simp del: One_nat_def)
qed

theorem chart_data_is_window_filter_witness:
  "getFilteredData exGetTime HALVING_EVENTS exChart AllCycles = exChart
   \<and> find (\<lambda>h. HalvingEvent.cycle h = 1) HALVING_EVENTS = Some (HALVING_EVENTS ! 0)
   \<and> getFilteredData exGetTime HALVING_EVENTS exChart (Cycle 1) = exData
   \<and> list_all (\<lambda>d. timestamp d \<le> exNow) exChart
   \<and> 1354060800000 + 550 * 86400000 \<le> exGetTime (HalvingEvent.date (HALVING_EVENTS ! 1))
   \<and> exData = filter (\<lambda>d. 1354060800000 - 365 * 86400000 \<le> timestamp d
                   \<and> timestamp d \<le> analysisEnd exGetTime exNow HALVING_EVENTS 0 1354060800000)
                 exChart"
proof -
  have fnd: "find (\<lambda>h. HalvingEvent.cycle h = 1) HALVING_EVENTS = Some (HALVING_EVENTS ! 0)"
    by (simp add: HALVING_EVENTS_def)
  have T: "exGetTime (HalvingEvent.date (HALVING_EVENTS ! 0)) = 1354060800000"
    by (simp add: HALVING_EVENTS_def exGetTime_def)
  have le: "\<forall>d\<in>set exChart. timestamp d \<le> exNow"
    by (simp add: exChart_def exData_def exNow_def)
  have nx: "1354060800000 + 550 * 86400000 \<le> exGetTime (HalvingEvent.date (HALVING_EVENTS ! 1))"
    by (simp add: HALVING_EVENTS_def exGetTime_def)
  have len: "0 < length HALVING_EVENTS" by (simp add: HALVING_EVENTS_def)
  note inst = chart_data_is_window_filter[where getTime = exGetTime and events = HALVING_EVENTS
      and priceData = exChart and c = 1 and halving = "HALVING_EVENTS ! 0" and now = exNow,
      unfolded T]
  from inst have all: "getFilteredData exGetTime HALVING_EVENTS exChart AllCycles = exChart"
    by (rule conjunct1)
  from inst[THEN conjunct2, THEN mp, OF fnd]
  have sel: "getFilteredData exGetTime HALVING_EVENTS exChart (Cycle 1)
      = filter (\<lambda>d. 1354060800000 - 365 * 86400000 \<le> timestamp d
                    \<and> timestamp d \<le> 1354060800000 + 550 * 86400000) exChart"
    and cap: "getFilteredData exGetTime HALVING_EVENTS exChart (Cycle 1)
      = filter (\<lambda>d. 1354060800000 - 365 * 86400000 \<le> timestamp d
                   \<and> timestamp d \<le> analysisEnd exGetTime exNow HALVING_EVENTS 0 1354060800000)
                 exChart"
    using len le nx by auto
  have "filter (\<lambda>d. 1354060800000 - 365 * 86400000 \<le> timestamp d
                    \<and> timestamp d \<le> 1354060800000 + 550 * 86400000) exChart = exData"
    by (simp add: exChart_def exData_def)
  with sel have r: "getFilteredData exGetTime HALVING_EVENTS exChart (Cycle 1) = exData"
    by simp
  have "list_all (\<lambda>d. timestamp d \<le> exNow) exChart"
    using le by (simp add: list_all_iff)
  with all fnd r nx cap show ?thesis by simp
qed

text \<open>
  Claim C9. For a series in which every price is strictly positive, the three crash
  fields of an emitted record (\<open>crashDate\<close>, \<open>crashPrice\<close>, \<open>percentageFromPeak\<close>) are
  all null or all non-null.
\<close>

theorem crash_fields_all_or_none:
  assumes "analyzeCycle fl getTime now events data index halving = Some a"
    and "\<forall>d\<in>set data. 0 < price d"
  shows "(crashDate (postHalvingData a) = None \<and> crashPrice (postHalvingData a) = None
            \<and> percentageFromPeak (postHalvingData a) = None)
       \<or> (crashDate (postHalvingData a) \<noteq> None \<and> crashPrice (postHalvingData a) \<noteq> None
            \<and> percentageFromPeak (postHalvingData a) \<noteq> None)"
proof -
  from analyzeCycle_SomeD[OF assms(1)] obtain h where
    a: "a = buildAnalysis fl getTime now events data index halving h" by blast
  define T where "T = getTime (HalvingEvent.date halving)"
  define post where "post = postHalvingFilter getTime now events index data T"
  define pk where "pk = findPeak (price h) (HalvingEvent.date halving) post"
  have cdx: "crashDate (postHalvingData a) = fst (findCrash fl (fst pk) (snd (snd pk)) post)"
    and cpx: "crashPrice (postHalvingData a) = fst (snd (findCrash fl (fst pk) (snd (snd pk)) post))"
    and pfp: "percentageFromPeak (postHalvingData a) =
      (case crashPrice (postHalvingData a) of None \<Rightarrow> None
       | Some c \<Rightarrow> if c \<noteq> 0
                   then Some (mul_num fl (div_num fl (sub_num fl c (fst pk)) (fst pk)) 100)
                   else None)"
    unfolding a pk_def post_def T_def by (simp_all add: buildAnalysis_fields)
  from findCrash_consistent[of fl "fst pk" "snd (snd pk)" post]
  show ?thesis
  proof
    assume "fst (findCrash fl (fst pk) (snd (snd pk)) post) = None
       \<and> fst (snd (findCrash fl (fst pk) (snd (snd pk)) post)) = None"
    then show ?thesis by (simp add: cdx cpx pfp)
  next
    assume "\<exists>d\<in>set post. ge_num (drawdown fl (fst pk) d) (Num 30)
         \<and> fst (findCrash fl (fst pk) (snd (snd pk)) post) = Some (PriceData.date d)
         \<and> fst (snd (findCrash fl (fst pk) (snd (snd pk)) post)) = Some (price d)"
    then obtain d where d: "d \<in> set post"
      "crashDate (postHalvingData a) = Some (PriceData.date d)"
      "crashPrice (postHalvingData a) = Some (price d)"
      using cdx cpx by auto
    have "d \<in> set data" using d(1) set_postHalvingFilter unfolding post_def by blast
    with assms(2) have "price d \<noteq> 0" by auto
    with d show ?thesis by (simp add: pfp)
  qed
qed

theorem crash_fields_all_or_none_witness:
  "analyzeCycle Num exGetTime exNow HALVING_EVENTS exData 0 (HALVING_EVENTS ! 0) = Some exAnalysis
   \<and> list_all (\<lambda>d. 0 < price d) exData
   \<and> crashDate (postHalvingData exAnalysis) \<noteq> None
   \<and> crashPrice (postHalvingData exAnalysis) \<noteq> None
   \<and> percentageFromPeak (postHalvingData exAnalysis) \<noteq> None"
proof -
  have cd: "crashDate (postHalvingData exAnalysis) \<noteq> None"
    by (simp add: exAnalysis_def)
  from crash_fields_all_or_none[OF exAnalyze exData_prices] cd
  have "crashPrice (postHalvingData exAnalysis) \<noteq> None
      \<and> percentageFromPeak (postHalvingData exAnalysis) \<noteq> None"
    by blast
  moreover have "list_all (\<lambda>d. 0 < price d) exData"
    using exData_prices by (simp add: list_all_iff)
  ultimately show ?thesis using exAnalyze cd by blast
qed

text \<open>
  Claim C10. In an emitted record \<open>daysAnalyzed\<close> is the number of samples of the series
  that fall in the pre-event window (between 365 days before the event and the event,
  both inclusive), not the length of the window in days, so it is at most the length
  of the series; and when the window is empty the start date is the event's own date. In \<open>exData\<close> the window holds two samples that
  lie a full 365 days apart, and \<open>daysAnalyzed\<close> is 2.
\<close>

theorem daysAnalyzed_counts_samples:
  fixes getTime now events data index halving a
  defines "T \<equiv> getTime (HalvingEvent.date halving)"
  assumes "analyzeCycle fl getTime now events data index halving = Some a"
  shows "daysAnalyzed (preHalvingData a)
           = length (filter (\<lambda>d. T - 365 * 86400000 \<le> timestamp d \<and> timestamp d \<le> T) data)
       \<and> daysAnalyzed (preHalvingData a) = length (preHalvingFilter data T)
       \<and> daysAnalyzed (preHalvingData a) \<le> length data
       \<and> (preHalvingFilter data T = []
            \<longrightarrow> startDate (preHalvingData a) = HalvingEvent.date halving)"
proof -
  from analyzeCycle_SomeD[OF assms(2)] obtain h where
    a: "a = buildAnalysis fl getTime now events data index halving h" by blast
  have n: "daysAnalyzed (preHalvingData a) = length (preHalvingFilter data T)"
    unfolding a T_def by (simp add: buildAnalysis_fields)
  have s: "startDate (preHalvingData a) = HalvingEvent.date halving"
    if "preHalvingFilter data T = []"
    using that unfolding a T_def by (simp add: buildAnalysis_fields)
  from n s show ?thesis by (simp add: preHalvingFilter_def)
qed

theorem daysAnalyzed_counts_samples_witness:
  "analyzeCycle Num exGetTime exNow HALVING_EVENTS exData 0 (HALVING_EVENTS ! 0) = Some exAnalysis
   \<and> daysAnalyzed (preHalvingData exAnalysis) = length (take 2 exData)
   \<and> daysAnalyzed (preHalvingData exAnalysis) = 2
   \<and> timestamp (exData ! 1) - timestamp (exData ! 0) = 365 * 86400000
   \<and> analyzeCycle Num exGetTime exNow HALVING_EVENTS exLate 0 (HALVING_EVENTS ! 0)
       = Some exLateAnalysis
   \<and> preHalvingFilter exLate (exGetTime (HalvingEvent.date (HALVING_EVENTS ! 0))) = []
   \<and> startDate (preHalvingData exLateAnalysis) = HalvingEvent.date (HALVING_EVENTS ! 0)"
proof -
  have "daysAnalyzed (preHalvingData exAnalysis) = length (take 2 exData)"
    using daysAnalyzed_counts_samples[OF exAnalyze, THEN conjunct2, THEN conjunct1]
    by (simp only: exPre)
  moreover have "length (take 2 exData) = 2" by (simp add: exData_def)
  moreover have "timestamp (exData ! 1) - timestamp (exData ! 0) = 365 * 86400000"
    by (simp add: exData_def)
  moreover
  have "startDate (preHalvingData exLateAnalysis) = HalvingEvent.date (HALVING_EVENTS ! 0)"
    using daysAnalyzed_counts_samples[OF exLateAnalyze, THEN conjunct2, THEN conjunct2,
        THEN conjunct2] exLatePre by (rule mp)
  ultimately show ?thesis using exAnalyze exLateAnalyze exLatePre by simp
qed

end
